theory Spec2Isabelle
  imports Main "HOL-Library.Sublist" "HOL-Library.Word"
begin

section \<open>A memcached text-protocol client\<close>

text \<open>
  The Go package \<open>memcached\<close> has two layers: the \<open>Transport\<close> interface with its one
  implementation \<open>TransportSocket\<close> (a \<open>net.Conn\<close> read through a \<open>bufio.Reader\<close>), and
  the protocol client \<open>Memcached\<close> with \<open>Set\<close>, \<open>Get\<close>, \<open>Delete\<close> and the shared
  \<open>command\<close>. Go strings are byte sequences: they are \<^typ>\<open>string\<close> here, one
  \<^typ>\<open>char\<close> per byte, and \<open>len\<close> is \<^const>\<open>length\<close>.
\<close>

subsection \<open>Bytes and errors\<close>

definition CR :: char where "CR = CHR 0x0D"
definition LF :: char where "LF = CHR 0x0A"
definition NUL :: char where "NUL = CHR 0x00"
definition CRLF :: string where "CRLF = [CR, LF]"

text \<open>Errors of the Go standard library (\<open>io\<close>, \<open>net\<close>), as far as the client can meet them.\<close>

datatype io_error = EOF | ErrClosed | OpError string

text \<open>
  The \<open>error\<close> values the package returns. \<open>Lib e\<close> is a library error passed on as it
  is; every other constructor stands for one \<open>fmt.Errorf\<close> call of the source, with the
  value its \<open>%q\<close> verb prints:
  \<^item> \<open>CannotConnect\<close>: \<open>"cannot connect: %q\n"\<close>
  \<^item> \<open>EmptyKey\<close>: \<open>"empty key\n"\<close>, \<open>KeyTooLong\<close>: \<open>"key too long\n"\<close>,
    \<open>InvalidKey\<close>: \<open>"invalid key\n"\<close>
  \<^item> \<open>WriteError\<close>: \<open>"write error: %q\n"\<close>, \<open>ReadError\<close>: \<open>"read error: %q\n"\<close>
  \<^item> \<open>NonexistentCommand\<close>: \<open>"nonexistent command: %q\n"\<close>,
    \<open>ProtocolError\<close>: \<open>"error: %q\n"\<close>
  \<^item> \<open>NotStored\<close>: \<open>"value is not stored: %q\n"\<close>,
    \<open>DeleteFailed\<close>: \<open>"delete failed: %q\n"\<close>
  \<^item> \<open>CannotParseHeader\<close>: \<open>"cannot parse header: %q\n"\<close>,
    \<open>UnexpectedEnd\<close>: \<open>"unexpected end: %q\n"\<close>
\<close>

datatype error =
    Lib io_error
  | CannotConnect io_error
  | EmptyKey
  | KeyTooLong
  | InvalidKey
  | WriteError error
  | ReadError error
  | NonexistentCommand string
  | ProtocolError string
  | NotStored string
  | DeleteFailed string
  | CannotParseHeader string
  | UnexpectedEnd string

text \<open>
  A call either returns its Go results, or it does not return: it panics (a nil
  dereference, \<open>make\<close> with a bad length) or it blocks for ever in a read on a silent peer.
\<close>

datatype abort = Panic | Blocked

datatype 'a outcome = Return 'a | Abort abort

subsection \<open>Key and ttl validation\<close>

text \<open>
  \<open>regexp.MustCompile(`[\x00-\x1F\x7F\s]`).MatchString\<close>: the class holds the code points
  0x00 to 0x1F, 0x7F and the Perl class \<open>\s\<close>, which in Go's RE2 syntax is
  \<open>[\t\n\f\r ]\<close>. Every member is below 0x80, and in UTF-8 a byte below 0x80 is always a
  code point of its own, so the string matches exactly when one of its bytes is in the class.
\<close>

definition byte :: "char \<Rightarrow> nat" where
  "byte c = of_char c"

definition in_class :: "char \<Rightarrow> bool" where
  "in_class c \<longleftrightarrow>
     byte c \<le> 0x1F \<or> byte c = 0x7F \<or>
     byte c = 0x09 \<or> byte c = 0x0A \<or> byte c = 0x0C \<or> byte c = 0x0D \<or> byte c = 0x20"

definition MatchString :: "string \<Rightarrow> bool" where
  "MatchString k = list_ex in_class k"

definition isValid :: "string \<Rightarrow> error option" where
  "isValid k =
     (if length k = 0 then Some EmptyKey
      else if length k > 250 then Some KeyTooLong
      else if MatchString k then Some InvalidKey
      else None)"

text \<open>\<open>type ttl int32\<close>; its \<open>isValid\<close> always returns nil.\<close>

type_synonym ttl = "32 word"

definition ttl_isValid :: "ttl \<Rightarrow> error option" where
  "ttl_isValid t = None"

subsection \<open>The environment: stream sockets and the buffered reader\<close>

text \<open>
  \<open>net.Conn\<close>, \<open>net.Dial\<close> and \<open>bufio.Reader\<close> belong to the Go standard library; they
  are modelled from their documented behaviour. A connection is what the client can see of
  one stream socket: whether it was closed locally, the bytes written to it, whether a
  write faults, the segments its peer delivers (one blocking \<open>conn.Read\<close> returns bytes of
  the next segment only), and what a read meets after the last segment: an error such as
  \<open>EOF\<close>, or nothing at all (\<open>None\<close>: the peer stays silent and the read blocks).
\<close>

record net_conn =
  closed :: bool
  sent :: string
  write_fault :: "io_error option"
  inbound :: "string list"
  at_end :: "io_error option"

text \<open>\<open>conn.Read(p)\<close> with \<open>len(p) = n > 0\<close>: at most \<open>n\<close> bytes of the next segment.\<close>

definition conn_Read :: "nat \<Rightarrow> net_conn \<Rightarrow> (io_error + string) outcome \<times> net_conn" where
  "conn_Read n c =
     (if closed c then (Return (Inl ErrClosed), c)
      else case dropWhile (\<lambda>seg. seg = []) (inbound c) of
             [] \<Rightarrow> (case at_end c of
                      None \<Rightarrow> (Abort Blocked, c)
                    | Some e \<Rightarrow> (Return (Inl e), c))
           | seg # rest \<Rightarrow>
               (Return (Inr (take n seg)),
                c\<lparr>inbound := (if n < length seg then drop n seg # rest else rest)\<rparr>))"

text \<open>\<open>conn.Write(data)\<close>: all of the data is sent, or an error is returned.\<close>

definition conn_Write :: "string \<Rightarrow> net_conn \<Rightarrow> io_error option \<times> net_conn" where
  "conn_Write data c =
     (if closed c then (Some ErrClosed, c)
      else case write_fault c of
             Some e \<Rightarrow> (Some e, c)
           | None \<Rightarrow> (None, c\<lparr>sent := sent c @ data\<rparr>))"

text \<open>\<open>conn.Close()\<close>: closing a closed connection is an error.\<close>

definition conn_Close :: "net_conn \<Rightarrow> io_error option \<times> net_conn" where
  "conn_Close c = (if closed c then (Some ErrClosed, c) else (None, c\<lparr>closed := True\<rparr>))"

text \<open>
  A \<open>bufio.Reader\<close> of the default size: the bytes read from the connection and not yet
  handed out (\<open>b.buf[b.r:b.w]\<close>), and the error kept for the next call (\<open>b.err\<close>).
\<close>

record bufio_Reader =
  buf :: string
  err :: "io_error option"

definition defaultBufSize :: nat where
  "defaultBufSize = 4096"

definition NewReader :: bufio_Reader where
  "NewReader = \<lparr>buf = [], err = None\<rparr>"

text \<open>
  \<open>Reader.Read(p)\<close> with \<open>len(p) = n\<close>, returning the bytes copied to the front of \<open>p\<close>.
  Go documents: "The bytes are taken from at most one Read on the underlying Reader, hence
  n may be less than len(p)." Buffered bytes are handed out without any read; on an empty
  buffer one read is made, straight into \<open>p\<close> when \<open>p\<close> is at least as large as the buffer.
\<close>

definition bufio_Read ::
  "nat \<Rightarrow> bufio_Reader \<Rightarrow> net_conn \<Rightarrow> (string \<times> io_error option) outcome \<times> bufio_Reader \<times> net_conn"
where
  "bufio_Read n b c =
     (if n = 0 then
        (if buf b \<noteq> [] then (Return ([], None), b, c)
         else (Return ([], err b), b\<lparr>err := None\<rparr>, c))
      else if buf b = [] then
        (case err b of
           Some e \<Rightarrow> (Return ([], Some e), b\<lparr>err := None\<rparr>, c)
         | None \<Rightarrow>
             (case conn_Read (max n defaultBufSize) c of
                (Abort a, c') \<Rightarrow> (Abort a, b, c')
              | (Return (Inl e), c') \<Rightarrow> (Return ([], Some e), b, c')
              | (Return (Inr d), c') \<Rightarrow> (Return (take n d, None), b\<lparr>buf := drop n d\<rparr>, c')))
      else (Return (take n (buf b), None), b\<lparr>buf := drop n (buf b)\<rparr>, c))"

text \<open>
  \<open>Reader.ReadString('\n')\<close>: the bytes up to and including the first line feed; on an error
  before a line feed, the bytes read so far and the error. The buffer is searched, a kept
  error ends the call, a full buffer is moved to the result, and otherwise the buffer is
  filled by one read of the connection.
\<close>

definition inbound_size :: "net_conn \<Rightarrow> nat" where
  "inbound_size c = sum_list (map length (inbound c))"

function ReadString ::
  "string \<Rightarrow> bufio_Reader \<Rightarrow> net_conn \<Rightarrow> (string \<times> io_error option) outcome \<times> bufio_Reader \<times> net_conn"
where
  "ReadString acc b c =
     (if LF \<in> set (buf b) then
        (Return (acc @ takeWhile (\<lambda>x. x \<noteq> LF) (buf b) @ [LF], None),
         b\<lparr>buf := tl (dropWhile (\<lambda>x. x \<noteq> LF) (buf b))\<rparr>, c)
      else if err b \<noteq> None then
        (Return (acc @ buf b, err b), b\<lparr>buf := [], err := None\<rparr>, c)
      else if defaultBufSize \<le> length (buf b) then
        ReadString (acc @ buf b) (b\<lparr>buf := []\<rparr>) c
      else
        (case conn_Read (defaultBufSize - length (buf b)) c of
           (Abort a, c') \<Rightarrow> (Abort a, b, c')
         | (Return (Inl e), c') \<Rightarrow> ReadString acc (b\<lparr>err := Some e\<rparr>) c'
         | (Return (Inr d), c') \<Rightarrow> ReadString acc (b\<lparr>buf := buf b @ d\<rparr>) c'))"
  by pat_completeness auto

termination ReadString
proof (relation "inv_image (less_than <*lex*> less_than <*lex*> less_than)
     (\<lambda>(acc, b, c). (inbound_size c, (if err b = None then 1 else 0) :: nat, length (buf b)))",
    goal_cases)
  case 1
  show ?case by (intro wf_inv_image wf_lex_prod wf_less_than)
next
  case (2 acc b c)
  then have "buf b \<noteq> []" by (auto simp: defaultBufSize_def)
  then show ?case by simp
next
  case (3 acc b c x y x1 a)
  then have "conn_Read (defaultBufSize - length (buf b)) c = (Return (Inl a), y)" by simp
  then have "y = c"
    by (auto simp: conn_Read_def split: if_splits list.splits option.splits)
  with 3 show ?case by simp
next
  case (4 acc b c x y x1 d)
  let ?n = "defaultBufSize - length (buf b)"
  from 4 have pos: "0 < ?n" and rd: "conn_Read ?n c = (Return (Inr d), y)" by simp_all
  from rd obtain seg rest where dw: "dropWhile (\<lambda>seg. seg = []) (inbound c) = seg # rest"
    and y: "y = c\<lparr>inbound := (if ?n < length seg then drop ?n seg # rest else rest)\<rparr>"
    by (auto simp: conn_Read_def split: if_splits list.splits option.splits)
  from dw have ne: "seg \<noteq> []"
    by (metis (mono_tags, lifting) dropWhile_eq_Cons_conv)
  have "sum_list (map length (dropWhile (\<lambda>seg. seg = []) xs)) = sum_list (map length xs)"
    for xs :: "string list"
    by (induction xs) auto
  from this [of "inbound c"] dw
  have "inbound_size c = length seg + sum_list (map length rest)"
    by (simp add: inbound_size_def)
  moreover have "inbound_size y < length seg + sum_list (map length rest)"
    using y ne pos by (auto simp: inbound_size_def)
  ultimately show ?case by simp
qed

declare ReadString.simps [simp del]

subsection \<open>TransportSocket\<close>

text \<open>
  The struct, and around it the part of the world its methods act on: what the successive
  calls of \<open>net.Dial\<close> return, how many were made, and the errors \<open>Close\<close> has printed on
  standard output. The reader is only ever made in \<open>connect\<close>, from the connection stored
  in the same call, and \<open>conn\<close> is never assigned again once it is not nil; so the
  reader's underlying connection is always the one in \<open>conn\<close>.
\<close>

record TransportSocket =
  network :: string
  address :: string
  conn :: "net_conn option"
  reader :: "bufio_Reader option"

record world =
  socket :: TransportSocket
  dial :: "nat \<Rightarrow> io_error + net_conn"
  dialled :: nat
  stdout :: "io_error list"

definition NewTransportSocket :: "string \<Rightarrow> string \<Rightarrow> TransportSocket" where
  "NewTransportSocket nw addr = \<lparr>network = nw, address = addr, conn = None, reader = None\<rparr>"

definition net_Dial :: "world \<Rightarrow> (io_error + net_conn) \<times> world" where
  "net_Dial w = (dial w (dialled w), w\<lparr>dialled := Suc (dialled w)\<rparr>)"

definition TransportSocket_connect :: "world \<Rightarrow> error option outcome \<times> world" where
  "TransportSocket_connect w =
     (if conn (socket w) \<noteq> None then (Return None, w)
      else case net_Dial w of
             (Inl dialErr, w') \<Rightarrow>
               (Return (Some (CannotConnect dialErr)), w'\<lparr>socket := (socket w')\<lparr>conn := None\<rparr>\<rparr>)
           | (Inr c, w') \<Rightarrow>
               (Return None, w'\<lparr>socket := (socket w')\<lparr>conn := Some c, reader := Some NewReader\<rparr>\<rparr>))"

definition TransportSocket_Close :: "world \<Rightarrow> world" where
  "TransportSocket_Close w =
     (case conn (socket w) of
        None \<Rightarrow> w
      | Some c \<Rightarrow>
          (case conn_Close c of
             (None, c') \<Rightarrow> w\<lparr>socket := (socket w)\<lparr>conn := Some c'\<rparr>\<rparr>
           | (Some e, c') \<Rightarrow> w\<lparr>socket := (socket w)\<lparr>conn := Some c'\<rparr>, stdout := stdout w @ [e]\<rparr>))"

definition TransportSocket_Write :: "string \<Rightarrow> world \<Rightarrow> error option outcome \<times> world" where
  "TransportSocket_Write data w =
     (case conn (socket w) of
        None \<Rightarrow> (Abort Panic, w)
      | Some c \<Rightarrow>
          (case conn_Write data c of
             (e, c') \<Rightarrow> (Return (map_option Lib e), w\<lparr>socket := (socket w)\<lparr>conn := Some c'\<rparr>\<rparr>)))"

text \<open>
  \<open>Read(bytes)\<close> returns the slice as the call leaves it together with the Go results.
  An empty slice selects the line mode. Otherwise \<open>reader.Read\<close> copies some bytes to the
  front of the slice; its count is dropped (\<open>_, err = t.reader.Read(bytes)\<close>) and the whole
  slice is returned as the string.
\<close>

definition with_io :: "world \<Rightarrow> bufio_Reader \<Rightarrow> net_conn \<Rightarrow> world" where
  "with_io w b c = w\<lparr>socket := (socket w)\<lparr>conn := Some c, reader := Some b\<rparr>\<rparr>"

definition TransportSocket_Read ::
  "string \<Rightarrow> world \<Rightarrow> (string \<times> (error + string)) outcome \<times> world"
where
  "TransportSocket_Read bytes w =
     (case (reader (socket w), conn (socket w)) of
        (Some b, Some c) \<Rightarrow>
          (if length bytes = 0 then
             (case ReadString [] b c of
                (Abort a, b', c') \<Rightarrow> (Abort a, with_io w b' c')
              | (Return (line, Some e), b', c') \<Rightarrow> (Return (bytes, Inl (Lib e)), with_io w b' c')
              | (Return (line, None), b', c') \<Rightarrow> (Return (bytes, Inr line), with_io w b' c'))
           else
             (case bufio_Read (length bytes) b c of
                (Abort a, b', c') \<Rightarrow> (Abort a, with_io w b' c')
              | (Return (d, Some e), b', c') \<Rightarrow>
                  (Return (d @ drop (length d) bytes, Inl (Lib e)), with_io w b' c')
              | (Return (d, None), b', c') \<Rightarrow>
                  (Return (d @ drop (length d) bytes, Inr (d @ drop (length d) bytes)),
                   with_io w b' c')))
      | _ \<Rightarrow> (Abort Panic, w))"

subsection \<open>The Transport interface\<close>

text \<open>
  An implementation of the interface is a record of its four methods over a state of its
  own. \<open>Read\<close> takes the slice and returns it as the call left it, with the results.
\<close>

record 's Transport =
  connect :: "'s \<Rightarrow> error option outcome \<times> 's"
  Close :: "'s \<Rightarrow> 's"
  Write :: "string \<Rightarrow> 's \<Rightarrow> error option outcome \<times> 's"
  Read :: "string \<Rightarrow> 's \<Rightarrow> (string \<times> (error + string)) outcome \<times> 's"

definition socket_transport :: "world Transport" where
  "socket_transport =
     \<lparr>connect = TransportSocket_connect, Close = TransportSocket_Close,
      Write = TransportSocket_Write, Read = TransportSocket_Read\<rparr>"

subsection \<open>Formatting and scanning (package fmt)\<close>

text \<open>The verb \<open>%d\<close> of \<open>fmt.Sprintf\<close>: decimal digits, with a minus sign below zero.\<close>

definition digit_char :: "nat \<Rightarrow> char" where
  "digit_char d = char_of (48 + d)"

fun digits :: "nat \<Rightarrow> string" where
  "digits n = (if n < 10 then [digit_char n] else digits (n div 10) @ [digit_char (n mod 10)])"

declare digits.simps [simp del]

definition decimal :: "int \<Rightarrow> string" where
  "decimal i = (if i < 0 then CHR ''-'' # digits (nat (- i)) else digits (nat i))"

text \<open>
  \<open>fmt.Sscanf(header, "VALUE %s %d %d\r\n", &key, &flags, &bytes)\<close>, modelled from the
  documentation and behaviour of package \<open>fmt\<close>. The scanner reads UTF-8 code points and
  asks \<open>isSpace\<close> of each; \<open>space_len\<close> is the number of bytes of the space at the front of
  the input, 0 when there is none. The spaces are U+0009 to U+000D, U+0020, U+0085,
  U+00A0, U+1680, U+2000 to U+200A, U+2028, U+2029, U+202F, U+205F and U+3000. A space
  beyond ASCII starts with a byte that is never inside another code point, so looking for
  the byte patterns at every position finds the same spaces as decoding does.
\<close>

fun space_len :: "string \<Rightarrow> nat" where
  "space_len [] = 0"
| "space_len (c # cs) =
     (if (9 \<le> byte c \<and> byte c \<le> 13) \<or> byte c = 32 then 1
      else if byte c = 0xC2 then
        (case cs of
           d # _ \<Rightarrow> if byte d = 0x85 \<or> byte d = 0xA0 then 2 else 0
         | [] \<Rightarrow> 0)
      else if byte c = 0xE1 then
        (case cs of
           d # e # _ \<Rightarrow> if byte d = 0x9A \<and> byte e = 0x80 then 3 else 0
         | _ \<Rightarrow> 0)
      else if byte c = 0xE2 then
        (case cs of
           d # e # _ \<Rightarrow>
             if byte d = 0x80 \<and>
                ((0x80 \<le> byte e \<and> byte e \<le> 0x8A) \<or> byte e = 0xA8 \<or> byte e = 0xA9 \<or> byte e = 0xAF)
             then 3
             else if byte d = 0x81 \<and> byte e = 0x9F then 3
             else 0
         | _ \<Rightarrow> 0)
      else if byte c = 0xE3 then
        (case cs of
           d # e # _ \<Rightarrow> if byte d = 0x80 \<and> byte e = 0x80 then 3 else 0
         | _ \<Rightarrow> 0)
      else 0)"

text \<open>Skipping spaces other than the line feed.\<close>

function skip_blanks :: "string \<Rightarrow> string" where
  "skip_blanks s =
     (if s \<noteq> [] \<and> hd s \<noteq> LF \<and> 0 < space_len s then skip_blanks (drop (space_len s) s) else s)"
  by pat_completeness auto
termination
  by (relation "measure length") auto

declare skip_blanks.simps [simp del]

text \<open>
  \<open>SkipSpace\<close>, run before every verb: spaces are skipped, a line feed is the error
  "unexpected newline" (\<open>None\<close>).
\<close>

definition SkipSpace :: "string \<Rightarrow> string option" where
  "SkipSpace s = (let r = skip_blanks s in if r \<noteq> [] \<and> hd r = LF then None else Some r)"

text \<open>
  A blank in the format that is not next to a line feed: the input must be at its end or
  continue with a space that is not a line feed; the spaces are skipped.
\<close>

definition format_space :: "string \<Rightarrow> string option" where
  "format_space s =
     (if s = [] then Some []
      else if hd s = LF \<or> space_len s = 0 then None
      else Some (skip_blanks s))"

text \<open>The verb \<open>%s\<close> takes the code points up to the next space; only the rest is kept here.\<close>

fun scan_token :: "string \<Rightarrow> string" where
  "scan_token [] = []"
| "scan_token (c # cs) = (if 0 < space_len (c # cs) then c # cs else scan_token cs)"

definition is_digit :: "char \<Rightarrow> bool" where
  "is_digit c \<longleftrightarrow> 48 \<le> byte c \<and> byte c \<le> 57"

definition digits_value :: "string \<Rightarrow> int" where
  "digits_value ds = foldl (\<lambda>a c. 10 * a + (int (byte c) - 48)) 0 ds"

text \<open>
  The verb \<open>%d\<close> into an \<open>int\<close> (64 bits): spaces, one optional sign, at least one
  decimal digit, and \<open>strconv.ParseInt\<close> of the token, which fails out of the range of
  \<open>int64\<close>. \<open>None\<close> is a scanning error.
\<close>

definition scan_int :: "string \<Rightarrow> (int \<times> string) option" where
  "scan_int s =
     (case SkipSpace s of
        None \<Rightarrow> None
      | Some r \<Rightarrow>
          if r = [] then None
          else
            (let neg = (hd r = CHR ''-'');
                 r' = (if hd r = CHR ''+'' \<or> hd r = CHR ''-'' then tl r else r);
                 ds = takeWhile is_digit r';
                 v = (if neg then - digits_value ds else digits_value ds)
             in if ds = [] then None
                else if v < - (2 ^ 63) \<or> 2 ^ 63 \<le> v then None
                else Some (v, dropWhile is_digit r')))"

text \<open>
  The scan returns how many operands it stored, and the operands \<open>flags\<close> and \<open>bytes\<close>
  (0 where nothing was stored). An error after the third operand (input that goes on
  where the format has its line end) leaves the count at 3. The scanned key is stored in
  the local \<open>key\<close>, which \<open>Get\<close> does not read again.
\<close>

definition Sscanf_VALUE :: "string \<Rightarrow> nat \<times> int \<times> int" where
  "Sscanf_VALUE header =
     (if \<not> prefix ''VALUE'' header then (0, 0, 0)
      else
        (case format_space (drop 5 header) of
           None \<Rightarrow> (0, 0, 0)
         | Some s1 \<Rightarrow>
             (case SkipSpace s1 of
                None \<Rightarrow> (0, 0, 0)
              | Some s2 \<Rightarrow>
                  if s2 = [] then (0, 0, 0)
                  else
                    (case format_space (scan_token s2) of
                       None \<Rightarrow> (1, 0, 0)
                     | Some s3 \<Rightarrow>
                         (case scan_int s3 of
                            None \<Rightarrow> (1, 0, 0)
                          | Some (flags, s4) \<Rightarrow>
                              (case format_space s4 of
                                 None \<Rightarrow> (2, flags, 0)
                               | Some s5 \<Rightarrow>
                                   (case scan_int s5 of
                                      None \<Rightarrow> (2, flags, 0)
                                    | Some (bytes, s6) \<Rightarrow> (3, flags, bytes))))))))"

subsection \<open>Memcached\<close>

text \<open>
  The struct \<open>Memcached\<close> has the transport as its only field; its methods take the
  transport's implementation and state.
\<close>

definition Memcached_Close :: "'s Transport \<Rightarrow> 's \<Rightarrow> 's" where
  "Memcached_Close tr s = Close tr s"

definition command :: "'s Transport \<Rightarrow> string \<Rightarrow> 's \<Rightarrow> (error + string) outcome \<times> 's" where
  "command tr cmd s =
     (case connect tr s of
        (Abort a, s1) \<Rightarrow> (Abort a, s1)
      | (Return (Some connectErr), s1) \<Rightarrow> (Return (Inl connectErr), s1)
      | (Return None, s1) \<Rightarrow>
          (case Write tr (cmd @ CRLF) s1 of
             (Abort a, s2) \<Rightarrow> (Abort a, s2)
           | (Return (Some writeErr), s2) \<Rightarrow>
               (Return (Inl (WriteError writeErr)), Memcached_Close tr s2)
           | (Return None, s2) \<Rightarrow>
               (case Read tr [] s2 of
                  (Abort a, s3) \<Rightarrow> (Abort a, s3)
                | (Return (_, Inl readErr), s3) \<Rightarrow>
                    (Return (Inl (ReadError readErr)), Memcached_Close tr s3)
                | (Return (_, Inr line), s3) \<Rightarrow>
                    if line = ''ERROR'' @ CRLF then (Return (Inl (NonexistentCommand cmd)), s3)
                    else if prefix ''CLIENT_ERROR '' line \<or> prefix ''SERVER_ERROR '' line
                    then (Return (Inl (ProtocolError line)), s3)
                    else (Return (Inr line), s3))))"

definition Set :: "'s Transport \<Rightarrow> string \<Rightarrow> string \<Rightarrow> ttl \<Rightarrow> 's \<Rightarrow> error option outcome \<times> 's" where
  "Set tr key val t s =
     (case isValid key of
        Some validKeyErr \<Rightarrow> (Return (Some validKeyErr), s)
      | None \<Rightarrow>
          (case ttl_isValid t of
             Some validTtlErr \<Rightarrow> (Return (Some validTtlErr), s)
           | None \<Rightarrow>
               (case command tr
                       (''set '' @ key @ '' 0 '' @ decimal (sint t) @ '' '' @
                        decimal (int (length val)) @ CRLF @ val) s of
                  (Abort a, s') \<Rightarrow> (Abort a, s')
                | (Return (Inl e), s') \<Rightarrow> (Return (Some e), s')
                | (Return (Inr resp), s') \<Rightarrow>
                    if resp \<noteq> ''STORED'' @ CRLF then (Return (Some (NotStored resp)), s')
                    else (Return None, s'))))"

definition eof :: string where
  "eof = ''END'' @ CRLF"

definition rnEof :: string where
  "rnEof = CRLF @ eof"

text \<open>
  \<open>make([]byte, bytes)\<close> panics when the length is negative or beyond what the runtime
  can allocate (\<open>maxAlloc\<close>, 2^48 bytes on 64-bit Linux); otherwise the slice is all zero.
\<close>

definition maxAlloc :: int where
  "maxAlloc = 2 ^ 48"

definition make :: "int \<Rightarrow> string option" where
  "make n = (if n < 0 \<or> maxAlloc < n then None else Some (replicate (nat n) NUL))"

definition Get :: "'s Transport \<Rightarrow> string \<Rightarrow> 's \<Rightarrow> (error + string) outcome \<times> 's" where
  "Get tr key s =
     (case isValid key of
        Some validKeyErr \<Rightarrow> (Return (Inl validKeyErr), s)
      | None \<Rightarrow>
          (case command tr (''get '' @ key) s of
             (Abort a, s1) \<Rightarrow> (Abort a, s1)
           | (Return (Inl e), s1) \<Rightarrow> (Return (Inl e), s1)
           | (Return (Inr header), s1) \<Rightarrow>
               if header = eof then (Return (Inr []), s1)
               else
                 (case Sscanf_VALUE header of
                    (n, flags, bytes) \<Rightarrow>
                      if n \<noteq> 3 then (Return (Inl (CannotParseHeader header)), s1)
                      else
                        (case make bytes of
                           None \<Rightarrow> (Abort Panic, s1)
                         | Some buf0 \<Rightarrow>
                             (case Read tr buf0 s1 of
                                (Abort a, s2) \<Rightarrow> (Abort a, s2)
                              | (Return (_, Inl e), s2) \<Rightarrow> (Return (Inl e), s2)
                              | (Return (dataBuf, Inr _), s2) \<Rightarrow>
                                  (case Read tr (replicate (length rnEof) NUL) s2 of
                                     (Abort a, s3) \<Rightarrow> (Abort a, s3)
                                   | (Return (_, Inl e), s3) \<Rightarrow> (Return (Inl e), s3)
                                   | (Return (rnEofBuf, Inr _), s3) \<Rightarrow>
                                       if rnEofBuf \<noteq> rnEof
                                       then (Return (Inl (UnexpectedEnd rnEofBuf)), s3)
                                       else (Return (Inr dataBuf), s3)))))))"

definition Delete :: "'s Transport \<Rightarrow> string \<Rightarrow> 's \<Rightarrow> error option outcome \<times> 's" where
  "Delete tr key s =
     (case isValid key of
        Some validKeyErr \<Rightarrow> (Return (Some validKeyErr), s)
      | None \<Rightarrow>
          (case command tr (''delete '' @ key) s of
             (Abort a, s') \<Rightarrow> (Abort a, s')
           | (Return (Inl e), s') \<Rightarrow> (Return (Some e), s')
           | (Return (Inr resp), s') \<Rightarrow>
               if resp \<noteq> ''DELETED'' @ CRLF then (Return (Some (DeleteFailed resp)), s')
               else (Return None, s')))"

text \<open>\<open>NewMemcached\<close>: a client over a fresh socket transport, in a given environment.\<close>

definition NewMemcached ::
  "string \<Rightarrow> string \<Rightarrow> (nat \<Rightarrow> io_error + net_conn) \<Rightarrow> world"
where
  "NewMemcached nw addr d =
     \<lparr>socket = NewTransportSocket nw addr, dial = d, dialled = 0, stdout = []\<rparr>"

subsection \<open>Notions of the specification, and environments to run in\<close>

text \<open>
  The classes of bytes the key rules name: the ASCII control characters 0x00 to 0x1F and
  0x7F, and the ASCII whitespace characters (tab, line feed, vertical tab, form feed,
  carriage return, space). Keys are byte strings and their length is counted in bytes.
\<close>

definition is_control :: "char \<Rightarrow> bool" where
  "is_control c \<longleftrightarrow> byte c \<le> 0x1F \<or> byte c = 0x7F"

definition is_whitespace :: "char \<Rightarrow> bool" where
  "is_whitespace c \<longleftrightarrow> byte c \<in> {0x09, 0x0A, 0x0B, 0x0C, 0x0D, 0x20}"

text \<open>The bytes written so far to the socket's connection.\<close>

definition sent_bytes :: "world \<Rightarrow> string" where
  "sent_bytes w = (case conn (socket w) of None \<Rightarrow> [] | Some c \<Rightarrow> sent c)"

text \<open>
  Environments to run the client in. \<open>peer segs e\<close> accepts every dial with a fresh
  connection on which the peer sends the segments \<open>segs\<close> and then ends the stream with
  \<open>e\<close> (\<open>None\<close>: it sends nothing more and keeps the connection open). \<open>refused\<close> fails
  every dial. \<open>reply_VALUE k v\<close> is the answer of a memcached server to \<open>get k\<close> when
  \<open>v\<close> is stored under \<open>k\<close> with flags 0: header line, the bytes of the value, line
  end, terminator line.
\<close>

definition open_conn :: "string list \<Rightarrow> io_error option \<Rightarrow> net_conn" where
  "open_conn segs e =
     \<lparr>closed = False, sent = [], write_fault = None, inbound = segs, at_end = e\<rparr>"

definition peer :: "string list \<Rightarrow> io_error option \<Rightarrow> nat \<Rightarrow> io_error + net_conn" where
  "peer segs e n = Inr (open_conn segs e)"

definition broken_pipe :: "nat \<Rightarrow> io_error + net_conn" where
  "broken_pipe n = Inr ((open_conn [] None)\<lparr>write_fault := Some (OpError ''broken pipe'')\<rparr>)"

definition refused :: "nat \<Rightarrow> io_error + net_conn" where
  "refused n = Inl (OpError ''connection refused'')"

definition localhost :: "(nat \<Rightarrow> io_error + net_conn) \<Rightarrow> world" where
  "localhost d = NewMemcached ''tcp'' ''localhost:11211'' d"

definition reply_VALUE :: "string \<Rightarrow> string \<Rightarrow> string" where
  "reply_VALUE k v =
     ''VALUE '' @ k @ '' 0 '' @ decimal (int (length v)) @ CRLF @ v @ CRLF @ ''END'' @ CRLF"

text \<open>The value of the example program \<open>examples/basic.go\<close>.\<close>

definition original :: string where
  "original = ''Hello World!'' @ [LF] @ ''END'' @ CRLF @ ''But no!'' @ [LF, LF]"

section \<open>Properties\<close>

subsection \<open>Key validation\<close>

text \<open>
  C4. \<open>isValid\<close> applies its rules in order and the first failing rule wins: the empty key
  gives the empty-key error; otherwise a key of more than 250 bytes gives the
  key-too-long error; otherwise a key with an ASCII control character (0x00 to 0x1F,
  0x7F) or a whitespace character gives the invalid-key error; every other key is
  accepted. The key itself is only inspected, never changed.
\<close>

theorem isValid_rules:
  "isValid k =
     (if k = [] then Some EmptyKey
      else if 250 < length k then Some KeyTooLong
      else if \<exists>c \<in> set k. is_control c \<or> is_whitespace c then Some InvalidKey
      else None)"
proof -
  have "in_class c \<longleftrightarrow> is_control c \<or> is_whitespace c" for c
    by (auto simp: in_class_def is_control_def is_whitespace_def)
  then have "MatchString k \<longleftrightarrow> (\<exists>c \<in> set k. is_control c \<or> is_whitespace c)"
    by (simp add: MatchString_def list_ex_iff)
  then show ?thesis
    by (simp add: isValid_def)
qed

theorem isValid_rules_witness:
  "isValid '''' = Some EmptyKey \<and>
   isValid (replicate 251 CHR ''a'') = Some KeyTooLong \<and>
   isValid (replicate 251 CHR '' '') = Some KeyTooLong \<and>
   isValid ''fo o'' = Some InvalidKey \<and>
   isValid [CHR ''a'', CHR 0x7F] = Some InvalidKey \<and>
   isValid '' foo'' = Some InvalidKey \<and>
   isValid (replicate 250 CHR ''a'') = None"
  using isValid_rules [of "''''"] isValid_rules [of "replicate 251 CHR ''a''"]
    isValid_rules [of "replicate 251 CHR '' ''"]
    isValid_rules [of "''fo o''"] isValid_rules [of "[CHR ''a'', CHR 0x7F]"]
    isValid_rules [of "'' foo''"] isValid_rules [of "replicate 250 CHR ''a''"]
  by (simp add: is_control_def is_whitespace_def byte_def)

text \<open>
  The rules are on bytes. A space beyond ASCII, such as U+00A0 (the bytes C2 A0 in
  UTF-8), is not in the class of the regular expression, and a key that holds it is
  accepted.
\<close>

lemma isValid_is_bytewise:
  "isValid [CHR ''a'', CHR 0xC2, CHR 0xA0, CHR ''b''] = None"
  by code_simp

subsection \<open>Validation comes before any I/O\<close>

text \<open>
  C6. For an invalid key, \<open>Set\<close>, \<open>Get\<close> and \<open>Delete\<close> return the validation error and
  the state of the transport is the one they were given, whatever the transport is: none
  of its methods has any part in the result.
\<close>

theorem invalid_key_no_io:
  "isValid key = Some e \<Longrightarrow>
     Set tr key val t s = (Return (Some e), s) \<and>
     Get tr key s = (Return (Inl e), s) \<and>
     Delete tr key s = (Return (Some e), s)"
  by (simp add: Set_def Get_def Delete_def)

theorem invalid_key_no_io_witness:
  "isValid '''' = Some EmptyKey \<and>
   Set socket_transport '''' ''x'' 10 (localhost refused) = (Return (Some EmptyKey), localhost refused) \<and>
   Get socket_transport '''' (localhost refused) = (Return (Inl EmptyKey), localhost refused) \<and>
   Delete socket_transport '''' (localhost refused) = (Return (Some EmptyKey), localhost refused)"
proof -
  have h: "isValid '''' = Some EmptyKey" by code_simp
  from invalid_key_no_io [OF h, of socket_transport "''x''" 10 "localhost refused"] h
  show ?thesis by simp
qed


subsection \<open>The shared preamble of every command\<close>

text \<open>
  C7. In \<open>command\<close>: when the connect step fails, its error is returned and the transport
  is left as the connect step left it (no write, no read, no close); when the write of
  the command line fails, the transport is closed and a write error is returned; when the
  read of the first line fails, the transport is closed and a read error is returned.
\<close>

theorem command_failures:
  "(connect tr s = (Return (Some e), s1) \<longrightarrow> command tr cmd s = (Return (Inl e), s1)) \<and>
   (connect tr s = (Return None, s1) \<and> Write tr (cmd @ CRLF) s1 = (Return (Some e), s2) \<longrightarrow>
      command tr cmd s = (Return (Inl (WriteError e)), Close tr s2)) \<and>
   (connect tr s = (Return None, s1) \<and> Write tr (cmd @ CRLF) s1 = (Return None, s2) \<and>
    Read tr [] s2 = (Return (b, Inl e), s3) \<longrightarrow>
      command tr cmd s = (Return (Inl (ReadError e)), Close tr s3))"
  by (simp add: command_def Memcached_Close_def)

theorem command_failures_witness:
  "fst (command socket_transport ''get foo'' (localhost refused)) =
     Return (Inl (CannotConnect (OpError ''connection refused''))) \<and>
   conn (socket (snd (command socket_transport ''get foo'' (localhost refused)))) = None \<and>
   fst (command socket_transport ''get foo'' (localhost broken_pipe)) =
     Return (Inl (WriteError (Lib (OpError ''broken pipe'')))) \<and>
   map_option closed (conn (socket (snd (command socket_transport ''get foo'' (localhost broken_pipe))))) =
     Some True \<and>
   fst (command socket_transport ''get foo'' (localhost (peer [] (Some EOF)))) =
     Return (Inl (ReadError (Lib EOF))) \<and>
   map_option closed
     (conn (socket (snd (command socket_transport ''get foo'' (localhost (peer [] (Some EOF))))))) =
     Some True"
proof -
  let ?tr = socket_transport
  let ?cmd = "''get foo''"
  have tr: "connect ?tr = TransportSocket_connect" "Write ?tr = TransportSocket_Write"
    "Read ?tr = TransportSocket_Read" "Close ?tr = TransportSocket_Close"
    by (simp_all add: socket_transport_def)
  \<comment> \<open>the dial is refused\<close>
  let ?a = "localhost refused"
  let ?a1 = "snd (TransportSocket_connect ?a)"
  let ?ea = "CannotConnect (OpError ''connection refused'')"
  have "fst (TransportSocket_connect ?a) = Return (Some ?ea)" by code_simp
  then have a1: "connect ?tr ?a = (Return (Some ?ea), ?a1)"
    by (simp add: tr prod_eq_iff)
  have a: "command ?tr ?cmd ?a = (Return (Inl ?ea), ?a1)"
    using command_failures [where tr = ?tr and s = ?a and e = ?ea and ?s1.0 = ?a1 and cmd = ?cmd] a1 by blast
  have a': "conn (socket ?a1) = None" by code_simp
  \<comment> \<open>the write faults\<close>
  let ?b = "localhost broken_pipe"
  let ?b1 = "snd (TransportSocket_connect ?b)"
  let ?b2 = "snd (TransportSocket_Write (?cmd @ CRLF) ?b1)"
  let ?eb = "Lib (OpError ''broken pipe'')"
  have "fst (TransportSocket_connect ?b) = Return None" by code_simp
  then have b1: "connect ?tr ?b = (Return None, ?b1)"
    by (simp add: tr prod_eq_iff)
  have "fst (TransportSocket_Write (?cmd @ CRLF) ?b1) = Return (Some ?eb)" by code_simp
  then have b2: "Write ?tr (?cmd @ CRLF) ?b1 = (Return (Some ?eb), ?b2)"
    by (simp add: tr prod_eq_iff)
  have b: "command ?tr ?cmd ?b = (Return (Inl (WriteError ?eb)), Close ?tr ?b2)"
    using command_failures [where tr = ?tr and s = ?b and e = ?eb and ?s1.0 = ?b1 and cmd = ?cmd and ?s2.0 = ?b2] b1 b2 by blast
  have b': "map_option closed (conn (socket (Close ?tr ?b2))) = Some True" by code_simp
  \<comment> \<open>the peer ends the stream before a line\<close>
  let ?c = "localhost (peer [] (Some EOF))"
  let ?c1 = "snd (TransportSocket_connect ?c)"
  let ?c2 = "snd (TransportSocket_Write (?cmd @ CRLF) ?c1)"
  let ?c3 = "snd (TransportSocket_Read [] ?c2)"
  have "fst (TransportSocket_connect ?c) = Return None" by code_simp
  then have c1: "connect ?tr ?c = (Return None, ?c1)"
    by (simp add: tr prod_eq_iff)
  have "fst (TransportSocket_Write (?cmd @ CRLF) ?c1) = Return None" by code_simp
  then have c2: "Write ?tr (?cmd @ CRLF) ?c1 = (Return None, ?c2)"
    by (simp add: tr prod_eq_iff)
  have "fst (TransportSocket_Read [] ?c2) = Return ([], Inl (Lib EOF))" by code_simp
  then have c3: "Read ?tr [] ?c2 = (Return ([], Inl (Lib EOF)), ?c3)"
    by (simp add: tr prod_eq_iff)
  have c: "command ?tr ?cmd ?c = (Return (Inl (ReadError (Lib EOF))), Close ?tr ?c3)"
    using command_failures [where tr = ?tr and s = ?c and e = "Lib EOF" and ?s1.0 = ?c1 and cmd = ?cmd
        and ?s2.0 = ?c2 and b = "[]" and ?s3.0 = ?c3] c1 c2 c3 by blast
  have c': "map_option closed (conn (socket (Close ?tr ?c3))) = Some True" by code_simp
  show ?thesis
    unfolding a b c fst_conv snd_conv using a' b' c' by simp
qed

text \<open>
  C8. When the command line was written and a first line was read: the line
  \<open>ERROR\r\n\<close> gives the unknown-command error; a line that starts with
  \<open>CLIENT_ERROR \<close> or \<open>SERVER_ERROR \<close> gives the protocol error that carries the line;
  every other line is returned as it was read, for the operation to continue with.
\<close>

theorem command_classifies:
  assumes "connect tr s = (Return None, s1)"
    and "Write tr (cmd @ CRLF) s1 = (Return None, s2)"
    and "Read tr [] s2 = (Return (b, Inr line), s3)"
  shows "command tr cmd s =
     (if line = ''ERROR'' @ CRLF then (Return (Inl (NonexistentCommand cmd)), s3)
      else if prefix ''CLIENT_ERROR '' line \<or> prefix ''SERVER_ERROR '' line
      then (Return (Inl (ProtocolError line)), s3)
      else (Return (Inr line), s3))"
  using assms by (simp add: command_def)

theorem command_classifies_witness:
  "fst (command socket_transport ''bogus'' (localhost (peer [''ERROR'' @ CRLF] None))) =
     Return (Inl (NonexistentCommand ''bogus'')) \<and>
   fst (command socket_transport ''get foo''
          (localhost (peer [''SERVER_ERROR out of memory'' @ CRLF] None))) =
     Return (Inl (ProtocolError (''SERVER_ERROR out of memory'' @ CRLF))) \<and>
   fst (command socket_transport ''delete foo'' (localhost (peer [''DELETED'' @ CRLF] None))) =
     Return (Inr (''DELETED'' @ CRLF))"
proof -
  let ?tr = socket_transport
  have run: "command ?tr cmd w =
     (if line = ''ERROR'' @ CRLF
      then (Return (Inl (NonexistentCommand cmd)), snd (TransportSocket_Read [] w2))
      else if prefix ''CLIENT_ERROR '' line \<or> prefix ''SERVER_ERROR '' line
      then (Return (Inl (ProtocolError line)), snd (TransportSocket_Read [] w2))
      else (Return (Inr line), snd (TransportSocket_Read [] w2)))"
    if "fst (TransportSocket_connect w) = Return None"
      and "w1 = snd (TransportSocket_connect w)"
      and "fst (TransportSocket_Write (cmd @ CRLF) w1) = Return None"
      and "w2 = snd (TransportSocket_Write (cmd @ CRLF) w1)"
      and "fst (TransportSocket_Read [] w2) = Return ([], Inr line)"
    for cmd w w1 w2 line
    using that
    by (intro command_classifies [where tr = ?tr and ?s1.0 = w1 and ?s2.0 = w2 and b = "[]"])
       (simp_all add: socket_transport_def prod_eq_iff)
  let ?a = "localhost (peer [''ERROR'' @ CRLF] None)"
  have a: "fst (command ?tr ''bogus'' ?a) = Return (Inl (NonexistentCommand ''bogus''))"
    by (subst run [where line = "''ERROR'' @ CRLF", OF _ refl _ refl]) (code_simp | simp)+
  let ?b = "localhost (peer [''SERVER_ERROR out of memory'' @ CRLF] None)"
  have b: "fst (command ?tr ''get foo'' ?b) =
      Return (Inl (ProtocolError (''SERVER_ERROR out of memory'' @ CRLF)))"
    by (subst run [where line = "''SERVER_ERROR out of memory'' @ CRLF", OF _ refl _ refl])
       (code_simp | simp add: CRLF_def)+
  let ?c = "localhost (peer [''DELETED'' @ CRLF] None)"
  have c: "fst (command ?tr ''delete foo'' ?c) = Return (Inr (''DELETED'' @ CRLF))"
    by (subst run [where line = "''DELETED'' @ CRLF", OF _ refl _ refl])
       (code_simp | simp add: CRLF_def)+
  from a b c show ?thesis by simp
qed

subsection \<open>Get on the terminator line\<close>

text \<open>
  C9. For a valid key, when the first line read in answer to \<open>get\<close> is the terminator
  line \<open>END\r\n\<close>, \<open>Get\<close> returns the empty string and no error.
\<close>

theorem Get_END_is_empty:
  assumes "isValid key = None"
    and "connect tr s = (Return None, s1)"
    and "Write tr (''get '' @ key @ CRLF) s1 = (Return None, s2)"
    and "Read tr [] s2 = (Return (b, Inr (''END'' @ CRLF)), s3)"
  shows "Get tr key s = (Return (Inr []), s3)"
  using assms by (simp add: Get_def command_def eof_def CRLF_def)

theorem Get_END_is_empty_witness:
  "isValid ''foo'' = None \<and>
   fst (Get socket_transport ''foo'' (localhost (peer [''END'' @ CRLF] None))) = Return (Inr [])"
proof -
  let ?w = "localhost (peer [''END'' @ CRLF] None)"
  let ?w1 = "snd (TransportSocket_connect ?w)"
  let ?w2 = "snd (TransportSocket_Write (''get '' @ ''foo'' @ CRLF) ?w1)"
  let ?w3 = "snd (TransportSocket_Read [] ?w2)"
  have k: "isValid ''foo'' = None" by code_simp
  have "fst (TransportSocket_connect ?w) = Return None" by code_simp
  then have 1: "connect socket_transport ?w = (Return None, ?w1)"
    by (simp add: socket_transport_def prod_eq_iff)
  have "fst (TransportSocket_Write (''get '' @ ''foo'' @ CRLF) ?w1) = Return None" by code_simp
  then have 2: "Write socket_transport (''get '' @ ''foo'' @ CRLF) ?w1 = (Return None, ?w2)"
    by (simp add: socket_transport_def prod_eq_iff)
  have "fst (TransportSocket_Read [] ?w2) = Return ([], Inr (''END'' @ CRLF))" by code_simp
  then have 3: "Read socket_transport [] ?w2 = (Return ([], Inr (''END'' @ CRLF)), ?w3)"
    by (simp add: socket_transport_def prod_eq_iff)
  from Get_END_is_empty [OF k 1 2 3] k show ?thesis by simp
qed


subsection \<open>The bytes of a store command\<close>

lemma conn_Read_sent: "conn_Read n c = (r, c') \<Longrightarrow> sent c' = sent c"
  by (auto simp: conn_Read_def split: if_splits list.splits option.splits)

lemma ReadString_sent: "ReadString acc b c = (r, b', c') \<Longrightarrow> sent c' = sent c"
proof (induction acc b c arbitrary: r b' c' rule: ReadString.induct)
  case (1 acc b c)
  show ?case
  proof (cases "LF \<in> set (buf b) \<or> err b \<noteq> None")
    case True
    with "1.prems" show ?thesis
      by (auto simp: ReadString.simps [of acc b c] split: if_splits)
  next
    case False
    note nf = this
    show ?thesis
    proof (cases "defaultBufSize \<le> length (buf b)")
      case True
      with nf "1.prems" "1.IH"(1) show ?thesis
        by (simp add: ReadString.simps [of acc b c])
    next
      case False
      obtain x c1 where cr: "conn_Read (defaultBufSize - length (buf b)) c = (x, c1)"
        by (cases "conn_Read (defaultBufSize - length (buf b)) c")
      then have s1: "sent c1 = sent c" by (rule conn_Read_sent)
      show ?thesis
      proof (cases x)
        case (Abort a)
        with nf False cr "1.prems" s1 show ?thesis
          by (simp add: ReadString.simps [of acc b c])
      next
        case (Return y)
        show ?thesis
        proof (cases y)
          case (Inl e)
          with nf False cr Return "1.prems"
          have "ReadString acc (b\<lparr>err := Some e\<rparr>) c1 = (r, b', c')"
            by (simp add: ReadString.simps [of acc b c])
          with "1.IH"(2) [OF _ _ _ cr [symmetric] Return Inl] nf False s1 show ?thesis
            by simp
        next
          case (Inr d)
          with nf False cr Return "1.prems"
          have "ReadString acc (b\<lparr>buf := buf b @ d\<rparr>) c1 = (r, b', c')"
            by (simp add: ReadString.simps [of acc b c])
          with "1.IH"(3) [OF _ _ _ cr [symmetric] Return Inr] nf False s1 show ?thesis
            by simp
        qed
      qed
    qed
  qed
qed

lemma bufio_Read_sent: "bufio_Read n b c = (r, b', c') \<Longrightarrow> sent c' = sent c"
  by (auto simp: bufio_Read_def
      split: if_splits option.splits prod.splits outcome.splits sum.splits
      dest: conn_Read_sent)

lemma TransportSocket_Read_sent:
  "sent_bytes (snd (TransportSocket_Read bytes w)) = sent_bytes w"
  by (auto simp: TransportSocket_Read_def sent_bytes_def with_io_def
      split: option.splits prod.splits outcome.splits
      dest: ReadString_sent bufio_Read_sent)

lemma TransportSocket_Close_sent:
  "sent_bytes (TransportSocket_Close w) = sent_bytes w"
  by (auto simp: TransportSocket_Close_def sent_bytes_def conn_Close_def
      split: option.splits if_splits)

lemma command_sent:
  assumes "TransportSocket_connect w = (Return None, w1)"
    and "conn (socket w1) = Some c" and "\<not> closed c" and "write_fault c = None"
  shows "sent_bytes (snd (command socket_transport cmd w)) = sent c @ cmd @ CRLF"
proof -
  define w2 where
    "w2 = w1\<lparr>socket := (socket w1)\<lparr>conn := Some (c\<lparr>sent := sent c @ cmd @ CRLF\<rparr>)\<rparr>\<rparr>"
  have wr: "TransportSocket_Write (cmd @ CRLF) w1 = (Return None, w2)"
    using assms by (simp add: TransportSocket_Write_def conn_Write_def w2_def)
  have s2: "sent_bytes w2 = sent c @ cmd @ CRLF"
    by (simp add: w2_def sent_bytes_def)
  obtain r w3 where rd: "TransportSocket_Read [] w2 = (r, w3)"
    by (cases "TransportSocket_Read [] w2")
  then have s3: "sent_bytes w3 = sent c @ cmd @ CRLF"
    using TransportSocket_Read_sent [of "[]" w2] s2 by simp
  have "snd (command socket_transport cmd w) = w3 \<or>
        snd (command socket_transport cmd w) = TransportSocket_Close w3"
    using assms(1) wr rd
    by (auto simp: command_def socket_transport_def Memcached_Close_def
        split: outcome.splits sum.splits)
  with s3 show ?thesis
    by (auto simp: TransportSocket_Close_sent)
qed

text \<open>
  C5. For a valid key, any value and any ttl, on a socket whose connect step succeeds with
  an open connection that takes writes, \<open>Set\<close> adds to the bytes sent exactly
  \<open>set <key> 0 <ttl> <len>\r\n<value>\r\n\<close>: the flags are 0, the ttl and the length of
  the value in bytes are in decimal, the value is as given, and \<open>command\<close> has added the
  final line end.
\<close>

theorem Set_wire_bytes:
  assumes "isValid key = None"
    and "TransportSocket_connect w = (Return None, w1)"
    and "conn (socket w1) = Some c" and "\<not> closed c" and "write_fault c = None"
  shows "sent_bytes (snd (Set socket_transport key val t w)) =
     sent c @ ''set '' @ key @ '' 0 '' @ decimal (sint t) @ '' '' @
     decimal (int (length val)) @ CRLF @ val @ CRLF"
proof -
  let ?cmd = "''set '' @ key @ '' 0 '' @ decimal (sint t) @ '' '' @
     decimal (int (length val)) @ CRLF @ val"
  have "snd (Set socket_transport key val t w) = snd (command socket_transport ?cmd w)"
    using assms(1)
    by (simp add: Set_def ttl_isValid_def split: prod.splits outcome.splits sum.splits)
  then show ?thesis
    using command_sent [OF assms(2-5), of ?cmd] by simp
qed

theorem Set_wire_bytes_witness:
  "isValid ''foo'' = None \<and>
   sent_bytes (snd (Set socket_transport ''foo'' original 10
                      (localhost (peer [''STORED'' @ CRLF] None)))) =
     ''set foo 0 10 27'' @ CRLF @ ''Hello World!'' @ [LF] @ ''END'' @ CRLF @ ''But no!'' @
     [LF, LF] @ CRLF"
proof -
  let ?w = "localhost (peer [''STORED'' @ CRLF] None)"
  let ?w1 = "snd (TransportSocket_connect ?w)"
  let ?c = "open_conn [''STORED'' @ CRLF] None"
  have k: "isValid ''foo'' = None" by code_simp
  have "fst (TransportSocket_connect ?w) = Return None" by code_simp
  then have 1: "TransportSocket_connect ?w = (Return None, ?w1)"
    by (simp add: prod_eq_iff)
  have 2: "conn (socket ?w1) = Some ?c" by code_simp
  have 3: "\<not> closed ?c" by code_simp
  have 4: "write_fault ?c = None" by code_simp
  have 5: "sent ?c @ ''set '' @ ''foo'' @ '' 0 '' @ decimal (sint (10 :: ttl)) @ '' '' @
      decimal (int (length original)) @ CRLF @ original @ CRLF =
    ''set foo 0 10 27'' @ CRLF @ ''Hello World!'' @ [LF] @ ''END'' @ CRLF @ ''But no!'' @
     [LF, LF] @ CRLF"
    by code_simp
  from Set_wire_bytes [OF k 1 2 3 4, of original 10] k show ?thesis
    unfolding 5 by simp
qed


subsection \<open>The example program\<close>

text \<open>
  The run of \<open>examples/basic.go\<close> against a server each of whose answers arrives in one
  segment: the value is stored, fetched unchanged, deleted, and then fetched as empty.
\<close>

lemma basic_example:
  "(let w = localhost (peer [''STORED'' @ CRLF, reply_VALUE ''foo'' original,
                              ''DELETED'' @ CRLF, ''END'' @ CRLF] None);
        (r1, w1) = Set socket_transport ''foo'' original 10 w;
        (r2, w2) = Get socket_transport ''foo'' w1;
        (r3, w3) = Delete socket_transport ''foo'' w2;
        (r4, w4) = Get socket_transport ''foo'' w3
    in r1 = Return None \<and> r2 = Return (Inr original) \<and> r3 = Return None \<and>
       r4 = Return (Inr []) \<and> dialled w4 = 1)"
  by code_simp

subsection \<open>Where the code departs from the specification\<close>

text \<open>
  Once the socket has a connection, \<open>connect\<close> returns nil and changes nothing; \<open>Close\<close>
  keeps the connection in place, closed; and on a closed connection every command fails
  with a write error, with no dial.
\<close>

lemma connect_keeps_connection:
  "conn (socket w) = Some c \<Longrightarrow> TransportSocket_connect w = (Return None, w)"
  by (simp add: TransportSocket_connect_def)

lemma Close_keeps_closed_connection:
  "conn (socket w) = Some c \<Longrightarrow>
     conn (socket (TransportSocket_Close w)) = Some (c\<lparr>closed := True\<rparr>)"
  by (auto simp: TransportSocket_Close_def conn_Close_def)

lemma command_on_closed_connection:
  assumes "conn (socket w) = Some c" and "closed c"
  shows "command socket_transport cmd w =
     (Return (Inl (WriteError (Lib ErrClosed))), w\<lparr>stdout := stdout w @ [ErrClosed]\<rparr>)"
  using assms
  by (simp add: command_def socket_transport_def TransportSocket_connect_def
      TransportSocket_Write_def conn_Write_def Memcached_Close_def TransportSocket_Close_def
      conn_Close_def)

text \<open>
  C1 (the code departs from it). After a close the next command does not dial again:
  \<open>Close\<close> leaves \<open>conn\<close> set, so \<open>connect\<close> returns nil at once and the command writes
  to the closed connection. First run: a fetch succeeds, the caller closes, the connect
  step of the next command returns nil without a dial and leaves the closed connection in
  place, and the next fetch fails with a write error, although a new dial would have
  reached the server. Second run: the peer ends the stream, the fetch fails with a read
  error and closes the connection, and the next fetch fails with a write error on the
  closed connection; one dial was made in all.
\<close>

theorem closed_connection_is_reused:
  "(let w = localhost (peer [''END'' @ CRLF, ''END'' @ CRLF] None);
        (r1, w1) = Get socket_transport ''foo'' w;
        w2 = Memcached_Close socket_transport w1;
        (c, w3) = TransportSocket_connect w2;
        (r2, w4) = Get socket_transport ''foo'' w2
    in r1 = Return (Inr []) \<and> dialled w1 = 1 \<and>
       c = Return None \<and> dialled w3 = 1 \<and>
       map_option closed (conn (socket w3)) = Some True \<and>
       r2 = Return (Inl (WriteError (Lib ErrClosed))) \<and> dialled w4 = 1) \<and>
   (let w = localhost (peer [] (Some EOF));
        (r1, w1) = Get socket_transport ''foo'' w;
        (r2, w2) = Get socket_transport ''foo'' w1
    in r1 = Return (Inl (ReadError (Lib EOF))) \<and>
       map_option closed (conn (socket w1)) = Some True \<and>
       r2 = Return (Inl (WriteError (Lib ErrClosed))) \<and> dialled w2 = 1)"
  by code_simp

text \<open>
  When the reader holds some bytes, but fewer than the slice is long, the read hands out
  those bytes, succeeds, and leaves the rest of the slice as it was.
\<close>

lemma Read_hands_out_the_buffer_only:
  assumes "reader (socket w) = Some b" and "conn (socket w) = Some c"
    and "buf b \<noteq> []" and "length (buf b) < length bytes"
  shows "fst (TransportSocket_Read bytes w) =
     Return (buf b @ drop (length (buf b)) bytes, Inr (buf b @ drop (length (buf b)) bytes))"
  using assms
  by (auto simp: TransportSocket_Read_def bufio_Read_def)

text \<open>
  C2 (the code departs from it). The read of a given length succeeds with fewer bytes
  than asked for. Four bytes are asked for and the peer's first segment holds two: the
  call returns no error and the string \<open>ab\<close> followed by the two zero bytes the slice
  was made with. The same happens when the stream ends after the two bytes.
\<close>

theorem exact_read_returns_short:
  "(let w = localhost (peer [''ab'', ''cd''] None);
        (c, w1) = TransportSocket_connect w;
        (r, w2) = TransportSocket_Read (replicate 4 NUL) w1
    in c = Return None \<and> r = Return (''ab'' @ [NUL, NUL], Inr (''ab'' @ [NUL, NUL]))) \<and>
   (let w = localhost (peer [''ab''] (Some EOF));
        (c, w1) = TransportSocket_connect w;
        (r, w2) = TransportSocket_Read (replicate 4 NUL) w1
    in c = Return None \<and> r = Return (''ab'' @ [NUL, NUL], Inr (''ab'' @ [NUL, NUL])))"
  by code_simp

text \<open>
  C3 (the code departs from it). Storing and then fetching does not always give the
  value back. First run: the empty value is stored; the server answers the fetch with
  \<open>VALUE foo 0 0\r\n\r\nEND\r\n\<close>; \<open>Get\<close> returns the unexpected-end error. Second
  run: the value \<open>hel\r\nEND\r\nxyz\<close> is stored and the answer to the fetch arrives in
  two segments, the first ending after \<open>hel\<close>; \<open>Get\<close> returns, without an error,
  \<open>hel\<close> followed by ten zero bytes.
\<close>

theorem store_then_fetch_differs:
  "(let w = localhost (peer [''STORED'' @ CRLF, reply_VALUE ''foo'' ''''] None);
        (r1, w1) = Set socket_transport ''foo'' '''' 10 w;
        (r2, w2) = Get socket_transport ''foo'' w1
    in r1 = Return None \<and>
       r2 = Return (Inl (UnexpectedEnd (''END'' @ CRLF @ [NUL, NUL])))) \<and>
   (let v = ''hel'' @ CRLF @ ''END'' @ CRLF @ ''xyz'';
        w = localhost (peer [''STORED'' @ CRLF, take 19 (reply_VALUE ''foo'' v),
                             drop 19 (reply_VALUE ''foo'' v)] None);
        (r1, w1) = Set socket_transport ''foo'' v 10 w;
        (r2, w2) = Get socket_transport ''foo'' w1
    in r1 = Return None \<and> take 19 (reply_VALUE ''foo'' v) = ''VALUE foo 0 13'' @ CRLF @ ''hel'' \<and>
       r2 = Return (Inr (''hel'' @ replicate 10 NUL)) \<and> r2 \<noteq> Return (Inr v))"
  by code_simp

text \<open>
  C10 (the code departs from it). The bare terminator line gives the empty string and
  no error, but a stored empty value does not: on the answer
  \<open>VALUE foo 0 0\r\n\r\nEND\r\n\<close> the slice made for the value is empty, the read with
  it is a line read that takes the \<open>\r\n\<close>, the seven bytes asked for next are
  \<open>END\r\n\<close> and two zero bytes, and \<open>Get\<close> returns the unexpected-end error. The
  same holds when the answer arrives in two segments.
\<close>

theorem empty_value_is_an_error:
  "fst (Get socket_transport ''foo'' (localhost (peer [''END'' @ CRLF] None))) = Return (Inr []) \<and>
   reply_VALUE ''foo'' '''' = ''VALUE foo 0 0'' @ CRLF @ CRLF @ ''END'' @ CRLF \<and>
   fst (Get socket_transport ''foo'' (localhost (peer [reply_VALUE ''foo'' ''''] None))) =
     Return (Inl (UnexpectedEnd (''END'' @ CRLF @ [NUL, NUL]))) \<and>
   fst (Get socket_transport ''foo''
          (localhost (peer [''VALUE foo 0 0'' @ CRLF, CRLF @ ''END'' @ CRLF] None))) =
     Return (Inl (UnexpectedEnd (''END'' @ CRLF @ [NUL, NUL])))"
  by code_simp


text \<open>
  A key may hold a space beyond ASCII (see \<open>isValid_is_bytewise\<close>). The scan of the
  header ends its \<open>%s\<close> at that space, inside the echoed key, and the fetch of such a
  key fails with the header error although the value is there.
\<close>

lemma Get_key_with_wide_space:
  "isValid [CHR ''a'', CHR 0xC2, CHR 0xA0, CHR ''b''] = None \<and>
   fst (Get socket_transport [CHR ''a'', CHR 0xC2, CHR 0xA0, CHR ''b'']
          (localhost
             (peer [reply_VALUE [CHR ''a'', CHR 0xC2, CHR 0xA0, CHR ''b''] ''hello''] None))) =
     Return (Inl (CannotParseHeader
       (''VALUE '' @ [CHR ''a'', CHR 0xC2, CHR 0xA0, CHR ''b''] @ '' 0 5'' @ CRLF)))"
  by code_simp

end
